theory Spec2Isabelle
  imports Main "HOL-Library.Word"
begin

section \<open>The SecretDeal contract (src/contracts/SecretDeal.sol)\<close>

text \<open>
  A shallow embedding of the Solidity contract \<^verbatim>\<open>SecretDeal\<close>. Storage is a record that
  every external function receives and returns; a failed \<^verbatim>\<open>require\<close> is the value
  \<open>Inl (Revert msg)\<close> carrying the source's message, and since a revert rolls the whole
  transaction back, a failing call has no successor state at all. Solidity mappings are
  total: a key that was never written reads as the zero value of its type, so they are
  modelled as total functions starting from the all-zero record.
\<close>

subsection \<open>Types\<close>

type_synonym uint256 = "256 word"
type_synonym address = "160 word"

text \<open>\<^verbatim>\<open>euint32\<close> and \<^verbatim>\<open>externalEuint32\<close> are 32-byte handles; \<^verbatim>\<open>bytes\<close> is a byte string.\<close>

type_synonym euint32 = "256 word"
type_synonym externalEuint32 = "256 word"
type_synonym bytes = "8 word list"

text \<open>Solidity strings are byte strings; \<^verbatim>\<open>bytes(s).length\<close> is \<open>length s\<close>.\<close>

record Deal =
  dealName :: string
  requiredParties :: uint256
  createdAt :: uint256
  finalized :: bool
  cancelled :: bool
  creator :: address
  parties :: "address list"

record Offer =
  party :: address
  encryptedValue :: euint32
  title :: string
  description :: string
  timestamp :: uint256
  revealed :: bool

datatype event =
    DealCreated uint256 string uint256 address
  | OfferSubmitted uint256 address string
  | OfferRevealed uint256 address
  | DealFinalized uint256 uint256
  | DealCancelled uint256 address

text \<open>Who an access grant on an encrypted handle is given to.\<close>

datatype grantee = ThisContract | Account address

text \<open>
  The contract's storage (\<open>dealCounter\<close>, \<open>deals\<close>, \<open>offers\<close>, \<open>offerCount\<close>,
  \<open>partyDeals\<close>), the log of emitted events, and the access grants made through
  \<^verbatim>\<open>FHE.allowThis\<close> and \<^verbatim>\<open>FHE.allow\<close>.
\<close>

record contract =
  dealCounter :: uint256
  deals :: "uint256 \<Rightarrow> Deal"
  offers :: "uint256 \<Rightarrow> address \<Rightarrow> Offer"
  offerCount :: "uint256 \<Rightarrow> uint256"
  partyDeals :: "address \<Rightarrow> uint256 list"
  events :: "event list"
  grants :: "(euint32 \<times> grantee) list"

text \<open>
  \<open>Revert m\<close> is a failed \<^verbatim>\<open>require(..., m)\<close>; \<open>Panic\<close> is the arithmetic-overflow panic
  of checked \<^verbatim>\<open>++\<close> (Solidity 0.8); \<open>InputRejected\<close> is a revert raised inside
  \<^verbatim>\<open>FHE.fromExternal\<close>.
\<close>

datatype error = Revert string | Panic | InputRejected

definition MAX_DEAL_NAME_LENGTH :: nat where
  "MAX_DEAL_NAME_LENGTH = 256"

definition MAX_PARTIES_PER_DEAL :: nat where
  "MAX_PARTIES_PER_DEAL = 100"

text \<open>The zero values of the two structs, and the storage of a freshly deployed contract.\<close>

definition zeroDeal :: Deal where
  "zeroDeal = \<lparr>dealName = [], requiredParties = 0, createdAt = 0, finalized = False,
     cancelled = False, creator = 0, parties = []\<rparr>"

definition zeroOffer :: Offer where
  "zeroOffer = \<lparr>party = 0, encryptedValue = 0, title = [], description = [],
     timestamp = 0, revealed = False\<rparr>"

definition deployed :: contract where
  "deployed = \<lparr>dealCounter = 0, deals = (\<lambda>_. zeroDeal), offers = (\<lambda>_ _. zeroOffer),
     offerCount = (\<lambda>_. 0), partyDeals = (\<lambda>_. []), events = [], grants = []\<rparr>"

subsection \<open>createDeal\<close>

text \<open>
  The four \<^verbatim>\<open>require\<close>s in source order, then \<^verbatim>\<open>dealId = dealCounter++\<close> (checked: it
  panics at \<open>2^256 - 1\<close>), the six field writes to \<^verbatim>\<open>deals[dealId]\<close> (the \<open>parties\<close>
  array is not written), the event, and the returned id.
\<close>

definition createDeal ::
  "contract \<Rightarrow> address \<Rightarrow> uint256 \<Rightarrow> string \<Rightarrow> uint256 \<Rightarrow> error + (contract \<times> uint256)" where
  "createDeal s sender now name required =
    (if \<not> (required > 0) then Inl (Revert ''At least one party required'')
     else if \<not> (unat required \<le> MAX_PARTIES_PER_DEAL) then Inl (Revert ''Too many required parties'')
     else if \<not> (length name > 0) then Inl (Revert ''Deal name cannot be empty'')
     else if \<not> (length name \<le> MAX_DEAL_NAME_LENGTH) then Inl (Revert ''Deal name too long'')
     else if dealCounter s = - 1 then Inl Panic
     else
       let dealId = dealCounter s in
       Inr (s\<lparr>dealCounter := dealCounter s + 1,
               deals := (deals s)(dealId := (deals s dealId)
                 \<lparr>dealName := name, requiredParties := required, createdAt := now,
                  finalized := False, cancelled := False, creator := sender\<rparr>),
               events := events s @ [DealCreated dealId name required sender]\<rparr>,
            dealId))"

subsection \<open>submitOffer\<close>

text \<open>
  \<^verbatim>\<open>FHE.fromExternal\<close> belongs to the FHEVM library, which is not part of the contract's
  source: it is the parameter \<open>fromExternal\<close>, which maps the external handle, the proof
  and the caller to the internal handle, or to \<open>None\<close> when the library reverts.
  \<^verbatim>\<open>FHE.allowThis\<close> and \<^verbatim>\<open>FHE.allow\<close>, calls into the same library, each append one
  entry to \<open>grants\<close>. The five \<^verbatim>\<open>require\<close>s come first, in source order;
  \<^verbatim>\<open>offerCount[dealId]++\<close> is checked and panics at \<open>2^256 - 1\<close>.
\<close>

type_synonym fhe = "externalEuint32 \<Rightarrow> bytes \<Rightarrow> address \<Rightarrow> euint32 option"

definition submitOffer ::
  "fhe \<Rightarrow> contract \<Rightarrow> address \<Rightarrow> uint256 \<Rightarrow> uint256 \<Rightarrow> externalEuint32 \<Rightarrow> bytes \<Rightarrow> string \<Rightarrow> string
     \<Rightarrow> error + contract" where
  "submitOffer fromExternal s sender now dealId inputEuint32 inputProof ttl descr =
    (let deal = deals s dealId in
     if finalized deal then Inl (Revert ''Deal already finalized'')
     else if cancelled deal then Inl (Revert ''Deal has been cancelled'')
     else if \<not> (party (offers s dealId sender) = 0) then Inl (Revert ''Offer already submitted'')
     else if \<not> (length ttl > 0) then Inl (Revert ''Title cannot be empty'')
     else if \<not> (length (parties deal) < MAX_PARTIES_PER_DEAL) then Inl (Revert ''Maximum parties reached'')
     else case fromExternal inputEuint32 inputProof sender of
       None \<Rightarrow> Inl InputRejected
     | Some encrypted \<Rightarrow>
         if offerCount s dealId = - 1 then Inl Panic
         else Inr (s\<lparr>
           offers := (offers s)(dealId := (offers s dealId)(sender :=
             \<lparr>party = sender, encryptedValue = encrypted, title = ttl, description = descr,
              timestamp = now, revealed = False\<rparr>)),
           deals := (deals s)(dealId := deal\<lparr>parties := parties deal @ [sender]\<rparr>),
           offerCount := (offerCount s)(dealId := offerCount s dealId + 1),
           partyDeals := (partyDeals s)(sender := partyDeals s sender @ [dealId]),
           grants := grants s @ [(encrypted, ThisContract), (encrypted, Account sender)],
           events := events s @ [OfferSubmitted dealId sender ttl]\<rparr>))"

subsection \<open>revealOffer\<close>

definition revealOffer :: "contract \<Rightarrow> address \<Rightarrow> uint256 \<Rightarrow> uint256 \<Rightarrow> error + contract" where
  "revealOffer s sender now dealId =
    (let offer = offers s dealId sender in
     if \<not> (party offer = sender) then Inl (Revert ''No offer found for this address'')
     else if revealed offer then Inl (Revert ''Offer already revealed'')
     else if cancelled (deals s dealId) then Inl (Revert ''Deal has been cancelled'')
     else Inr (s\<lparr>
       offers := (offers s)(dealId := (offers s dealId)(sender := offer\<lparr>revealed := True\<rparr>)),
       events := events s @ [OfferRevealed dealId sender]\<rparr>))"

subsection \<open>areAllOffersRevealed\<close>

text \<open>
  The \<^verbatim>\<open>for\<close> loop over \<^verbatim>\<open>deal.parties\<close>, by index; it returns \<open>False\<close> at the first
  party whose offer is not revealed and \<open>True\<close> when the index reaches the length.
\<close>

function allRevealedFrom :: "contract \<Rightarrow> uint256 \<Rightarrow> address list \<Rightarrow> nat \<Rightarrow> bool" where
  "allRevealedFrom s dealId ps i =
    (if i < length ps then
       (if \<not> revealed (offers s dealId (ps ! i)) then False
        else allRevealedFrom s dealId ps (Suc i))
     else True)"
  by pat_completeness auto
termination
  by (relation "measure (\<lambda>(s, dealId, ps, i). length ps - i)") auto

declare allRevealedFrom.simps [simp del]

definition areAllOffersRevealed :: "contract \<Rightarrow> uint256 \<Rightarrow> bool" where
  "areAllOffersRevealed s dealId =
    (let deal = deals s dealId in
     if length (parties deal) = 0 then False
     else allRevealedFrom s dealId (parties deal) 0)"

subsection \<open>finalizeDeal and cancelDeal\<close>

definition finalizeDeal :: "contract \<Rightarrow> address \<Rightarrow> uint256 \<Rightarrow> uint256 \<Rightarrow> error + contract" where
  "finalizeDeal s sender now dealId =
    (let deal = deals s dealId in
     if finalized deal then Inl (Revert ''Deal already finalized'')
     else if cancelled deal then Inl (Revert ''Deal has been cancelled'')
     else if \<not> areAllOffersRevealed s dealId then Inl (Revert ''Not all offers revealed'')
     else if \<not> (length (parties deal) > 0) then Inl (Revert ''No offers submitted'')
     else Inr (s\<lparr>
       deals := (deals s)(dealId := deal\<lparr>finalized := True\<rparr>),
       events := events s @ [DealFinalized dealId now]\<rparr>))"

definition cancelDeal :: "contract \<Rightarrow> address \<Rightarrow> uint256 \<Rightarrow> uint256 \<Rightarrow> error + contract" where
  "cancelDeal s sender now dealId =
    (let deal = deals s dealId in
     if \<not> (creator deal = sender) then Inl (Revert ''Only creator can cancel deal'')
     else if finalized deal then Inl (Revert ''Cannot cancel finalized deal'')
     else if cancelled deal then Inl (Revert ''Deal already cancelled'')
     else Inr (s\<lparr>
       deals := (deals s)(dealId := deal\<lparr>cancelled := True\<rparr>),
       events := events s @ [DealCancelled dealId sender]\<rparr>))"

subsection \<open>getDeal\<close>

text \<open>
  The view reads \<^verbatim>\<open>deals[dealId]\<close> and returns its seven fields in the source's order.
  Its body has no \<^verbatim>\<open>require\<close>; it is given the result type of an external call so that
  a failure could be told from a returned record.
\<close>

definition getDeal ::
  "contract \<Rightarrow> uint256 \<Rightarrow> error + (string \<times> address list \<times> uint256 \<times> uint256 \<times> bool \<times> bool \<times> address)" where
  "getDeal s dealId =
    (let deal = deals s dealId in
     Inr (dealName deal, parties deal, requiredParties deal, createdAt deal,
          finalized deal, cancelled deal, creator deal))"

subsection \<open>Transactions\<close>

text \<open>
  A transaction is a caller, a block timestamp and one state-changing call. A reverted
  transaction leaves the storage as it was.
\<close>

datatype call =
    CreateDeal string uint256
  | SubmitOffer uint256 externalEuint32 bytes string string
  | RevealOffer uint256
  | FinalizeDeal uint256
  | CancelDeal uint256

record tx =
  msg_sender :: address
  block_timestamp :: uint256
  call :: call

definition exec :: "fhe \<Rightarrow> contract \<Rightarrow> tx \<Rightarrow> error + (contract \<times> uint256 option)" where
  "exec F s t =
    (case call t of
       CreateDeal name required \<Rightarrow>
         (case createDeal s (msg_sender t) (block_timestamp t) name required of
            Inl e \<Rightarrow> Inl e | Inr (s', dealId) \<Rightarrow> Inr (s', Some dealId))
     | SubmitOffer dealId h p ttl descr \<Rightarrow>
         (case submitOffer F s (msg_sender t) (block_timestamp t) dealId h p ttl descr of
            Inl e \<Rightarrow> Inl e | Inr s' \<Rightarrow> Inr (s', None))
     | RevealOffer dealId \<Rightarrow>
         (case revealOffer s (msg_sender t) (block_timestamp t) dealId of
            Inl e \<Rightarrow> Inl e | Inr s' \<Rightarrow> Inr (s', None))
     | FinalizeDeal dealId \<Rightarrow>
         (case finalizeDeal s (msg_sender t) (block_timestamp t) dealId of
            Inl e \<Rightarrow> Inl e | Inr s' \<Rightarrow> Inr (s', None))
     | CancelDeal dealId \<Rightarrow>
         (case cancelDeal s (msg_sender t) (block_timestamp t) dealId of
            Inl e \<Rightarrow> Inl e | Inr s' \<Rightarrow> Inr (s', None)))"

definition apply_tx :: "fhe \<Rightarrow> contract \<Rightarrow> tx \<Rightarrow> contract" where
  "apply_tx F s t = (case exec F s t of Inl e \<Rightarrow> s | Inr (s', r) \<Rightarrow> s')"

primrec run :: "fhe \<Rightarrow> contract \<Rightarrow> tx list \<Rightarrow> contract" where
  "run F s [] = s"
| "run F s (t # ts) = run F (apply_tx F s t) ts"

subsection \<open>Observations on calls and traces\<close>

text \<open>A call succeeds when it returns instead of reverting.\<close>

definition succeeds :: "error + 'a \<Rightarrow> bool" where
  "succeeds r = (case r of Inl e \<Rightarrow> False | Inr x \<Rightarrow> True)"

text \<open>
  The deal ids returned by the successful \<^verbatim>\<open>createDeal\<close> calls of a trace, in call order.
\<close>

primrec issued :: "fhe \<Rightarrow> contract \<Rightarrow> tx list \<Rightarrow> uint256 list" where
  "issued F s [] = []"
| "issued F s (t # ts) =
     (case exec F s t of Inr (s', Some dealId) \<Rightarrow> [dealId] | _ \<Rightarrow> []) @ issued F (apply_tx F s t) ts"

text \<open>
  The number of successful \<^verbatim>\<open>submitOffer\<close> calls by caller \<open>c\<close> on deal \<open>d\<close> in a trace.
\<close>

definition isSubmitBy :: "address \<Rightarrow> uint256 \<Rightarrow> tx \<Rightarrow> bool" where
  "isSubmitBy c d t =
     (msg_sender t = c \<and> (case call t of SubmitOffer d' h p ttl descr \<Rightarrow> d' = d | _ \<Rightarrow> False))"

primrec submitSuccesses :: "fhe \<Rightarrow> contract \<Rightarrow> address \<Rightarrow> uint256 \<Rightarrow> tx list \<Rightarrow> nat" where
  "submitSuccesses F s c d [] = 0"
| "submitSuccesses F s c d (t # ts) =
     (if isSubmitBy c d t \<and> succeeds (exec F s t) then 1 else 0)
       + submitSuccesses F (apply_tx F s t) c d ts"

text \<open>
  The presence test of the source: \<^verbatim>\<open>submitOffer\<close> takes
  \<^verbatim>\<open>offers[dealId][msg.sender].party == address(0)\<close> to mean that no offer is stored.
\<close>

definition offerExists :: "contract \<Rightarrow> uint256 \<Rightarrow> address \<Rightarrow> bool" where
  "offerExists s dealId a = (party (offers s dealId a) \<noteq> 0)"

text \<open>
  The four \<^verbatim>\<open>require\<close> messages of \<^verbatim>\<open>createDeal\<close>, which the specification groups
  under the error kind InvalidInput.
\<close>

definition InvalidInput :: "error \<Rightarrow> bool" where
  "InvalidInput e =
     (e = Revert ''At least one party required'' \<or> e = Revert ''Too many required parties'' \<or>
      e = Revert ''Deal name cannot be empty'' \<or> e = Revert ''Deal name too long'')"

subsection \<open>Concrete scenarios\<close>

text \<open>
  An input verifier that accepts every handle and proof, as the test suite's mock
  environment does, and some storage states used for the concrete checks below.
  Address 10 is the deal creator; 11 and 12 are parties.
\<close>

definition acceptAll :: fhe where
  "acceptAll h p a = Some h"

definition transaction :: "address \<Rightarrow> uint256 \<Rightarrow> call \<Rightarrow> tx" where
  "transaction a n c = \<lparr>msg_sender = a, block_timestamp = n, call = c\<rparr>"

definition s_created :: contract where
  "s_created = run acceptAll deployed [transaction 10 1 (CreateDeal ''Pilot Deal'' 2)]"

definition s_submitted :: contract where
  "s_submitted = run acceptAll deployed
     [transaction 10 1 (CreateDeal ''Pilot Deal'' 2),
      transaction 11 2 (SubmitOffer 0 500 [] ''Offer B'' ''terms'')]"

definition s_revealed :: contract where
  "s_revealed = run acceptAll deployed
     [transaction 10 1 (CreateDeal ''Pilot Deal'' 2),
      transaction 11 2 (SubmitOffer 0 500 [] ''Offer B'' ''terms''),
      transaction 11 3 (RevealOffer 0)]"

text \<open>
  A storage state written by hand, in which deal 0 is finalized while the offer of
  party 11 is not revealed.
\<close>

definition s_finalized_unrevealed :: contract where
  "s_finalized_unrevealed = deployed
     \<lparr>dealCounter := 1,
      deals := (deals deployed)(0 := zeroDeal\<lparr>dealName := ''Pilot Deal'', requiredParties := 2,
        finalized := True, creator := 10, parties := [11]\<rparr>),
      offers := (offers deployed)(0 := (offers deployed 0)(11 := zeroOffer\<lparr>party := 11, title := ''Offer B''\<rparr>))\<rparr>"

text \<open>
  On a fresh contract, party 11 submits to deal id 0 before any deal was created, reveals,
  and party 12 finalizes.
\<close>

definition s_phantom :: contract where
  "s_phantom = run acceptAll deployed
     [transaction 11 1 (SubmitOffer 0 500 [] ''Offer B'' ''terms''),
      transaction 11 2 (RevealOffer 0),
      transaction 12 3 (FinalizeDeal 0)]"

definition s_cancelled :: contract where
  "s_cancelled = run acceptAll deployed
     [transaction 10 1 (CreateDeal ''Cancel Deal'' 2),
      transaction 10 2 (CancelDeal 0)]"

definition s_submitted_cancelled :: contract where
  "s_submitted_cancelled = run acceptAll deployed
     [transaction 10 1 (CreateDeal ''Cancel Deal'' 2),
      transaction 11 2 (SubmitOffer 0 500 [] ''Offer B'' ''terms''),
      transaction 10 3 (CancelDeal 0)]"

section \<open>Properties\<close>

lemmas eval_defs = createDeal_def submitOffer_def revealOffer_def finalizeDeal_def cancelDeal_def
  getDeal_def areAllOffersRevealed_def allRevealedFrom.simps apply_tx_def exec_def deployed_def
  zeroDeal_def zeroOffer_def MAX_DEAL_NAME_LENGTH_def MAX_PARTIES_PER_DEAL_def acceptAll_def
  transaction_def succeeds_def Let_def

subsection \<open>The reveal loop\<close>

lemma allRevealedFrom_iff:
  "allRevealedFrom s dealId ps i \<longleftrightarrow> (\<forall>j. i \<le> j \<and> j < length ps \<longrightarrow> revealed (offers s dealId (ps ! j)))"
proof (induction s dealId ps i rule: allRevealedFrom.induct)
  case (1 s dealId ps i)
  show ?case
  proof (cases "i < length ps")
    case False
    then show ?thesis by (auto simp: allRevealedFrom.simps [of s dealId ps i])
  next
    case True
    show ?thesis
    proof (cases "revealed (offers s dealId (ps ! i))")
      case False
      with True show ?thesis
        by (auto simp: allRevealedFrom.simps [of s dealId ps i])
    next
      case rev: True
      have "allRevealedFrom s dealId ps i = allRevealedFrom s dealId ps (Suc i)"
        using True rev by (simp add: allRevealedFrom.simps [of s dealId ps i])
      also have "\<dots> \<longleftrightarrow> (\<forall>j. Suc i \<le> j \<and> j < length ps \<longrightarrow> revealed (offers s dealId (ps ! j)))"
        using "1.IH" True rev by simp
      also have "\<dots> \<longleftrightarrow> (\<forall>j. i \<le> j \<and> j < length ps \<longrightarrow> revealed (offers s dealId (ps ! j)))"
        using rev by (metis Suc_leI le_neq_implies_less Suc_leD)
      finally show ?thesis .
    qed
  qed
qed

lemma areAllOffersRevealed_iff:
  "areAllOffersRevealed s dealId \<longleftrightarrow>
     parties (deals s dealId) \<noteq> [] \<and>
     (\<forall>p \<in> set (parties (deals s dealId)). revealed (offers s dealId p))"
  by (auto simp: areAllOffersRevealed_def Let_def allRevealedFrom_iff all_set_conv_all_nth)

subsection \<open>The deal counter and the issued ids\<close>

lemmas call_defs = createDeal_def submitOffer_def revealOffer_def finalizeDeal_def cancelDeal_def

lemma word_lt_succ:
  fixes c :: uint256
  assumes "c \<noteq> - 1"
  shows "c < c + 1"
proof (rule ccontr)
  assume "\<not> c < c + 1"
  then have "c + 1 \<le> c" by (simp add: not_less)
  then have "c = - 1" by (rule inc_less_eq_triv_imp)
  with assms show False by simp
qed

lemma word_lt_succ_iff:
  fixes c x :: uint256
  assumes "c \<noteq> - 1"
  shows "x < c + 1 \<longleftrightarrow> x \<le> c"
proof
  assume "x < c + 1"
  then show "x \<le> c" by (rule less_inc_imp_less_eq)
next
  assume "x \<le> c"
  also have "c < c + 1" using assms by (rule word_lt_succ)
  finally show "x < c + 1" .
qed

lemma exec_Some_id:
  "exec F s t = Inr (s', Some dealId) \<Longrightarrow>
     dealId = dealCounter s \<and> dealCounter s \<noteq> - 1 \<and> dealCounter s' = dealCounter s + 1"
  by (cases "call t") (auto simp: exec_def call_defs Let_def split: if_splits sum.splits option.splits)

lemma exec_None_counter:
  "exec F s t = Inr (s', None) \<Longrightarrow> dealCounter s' = dealCounter s"
  by (cases "call t") (auto simp: exec_def call_defs Let_def split: if_splits sum.splits option.splits)

lemma apply_tx_counter:
  "dealCounter (apply_tx F s t) = dealCounter s \<or>
   (dealCounter s \<noteq> - 1 \<and> dealCounter (apply_tx F s t) = dealCounter s + 1 \<and>
    exec F s t = Inr (apply_tx F s t, Some (dealCounter s)))"
proof (cases "exec F s t")
  case (Inl e)
  then show ?thesis by (simp add: apply_tx_def)
next
  case (Inr r)
  obtain s' v where r: "r = (s', v)" by (cases r)
  show ?thesis
  proof (cases v)
    case None
    with Inr r exec_None_counter [of F s t s'] show ?thesis by (simp add: apply_tx_def)
  next
    case (Some dealId)
    with Inr r exec_Some_id [of F s t s' dealId] show ?thesis by (simp add: apply_tx_def)
  qed
qed

lemma apply_tx_counter_mono: "dealCounter s \<le> dealCounter (apply_tx F s t)"
  using apply_tx_counter [of F s t] word_lt_succ [of "dealCounter s"] by auto

lemma run_counter_mono: "dealCounter s \<le> dealCounter (run F s txs)"
proof (induction txs arbitrary: s)
  case Nil
  show ?case by simp
next
  case (Cons t txs)
  have "dealCounter s \<le> dealCounter (apply_tx F s t)" by (rule apply_tx_counter_mono)
  also have "\<dots> \<le> dealCounter (run F (apply_tx F s t) txs)" by (rule Cons.IH)
  finally show ?case by simp
qed

lemma issued_head:
  "(case exec F s t of Inr (s', Some dealId) \<Rightarrow> [dealId] | _ \<Rightarrow> []) =
     (if dealCounter (apply_tx F s t) = dealCounter s then [] else [dealCounter s])"
proof (cases "exec F s t")
  case (Inl e)
  then show ?thesis by (simp add: apply_tx_def)
next
  case (Inr r)
  obtain s' v where r: "r = (s', v)" by (cases r)
  show ?thesis
  proof (cases v)
    case None
    with Inr r exec_None_counter [of F s t s'] show ?thesis by (simp add: apply_tx_def)
  next
    case (Some dealId)
    with Inr r exec_Some_id [of F s t s' dealId] word_lt_succ [of "dealCounter s"]
    show ?thesis by (auto simp: apply_tx_def)
  qed
qed

lemma issued_lower: "x \<in> set (issued F s txs) \<Longrightarrow> dealCounter s \<le> x"
proof (induction txs arbitrary: s)
  case Nil
  then show ?case by simp
next
  case (Cons t txs)
  from Cons.prems consider
    (hd) "x = dealCounter s" | (tl) "x \<in> set (issued F (apply_tx F s t) txs)"
    by (auto simp: issued_head split: if_splits)
  then show ?case
  proof cases
    case hd
    then show ?thesis by simp
  next
    case tl
    have "dealCounter s \<le> dealCounter (apply_tx F s t)" by (rule apply_tx_counter_mono)
    also have "\<dots> \<le> x" using tl by (rule Cons.IH)
    finally show ?thesis .
  qed
qed

lemma issued_append:
  "issued F s (xs @ ys) = issued F s xs @ issued F (run F s xs) ys"
  by (induction xs arbitrary: s) simp_all

subsection \<open>Offers are written once\<close>

lemma submitOffer_blocked:
  "party (offers s d c) \<noteq> 0 \<Longrightarrow>
   submitOffer F s c now d h p ttl descr =
     Inl (Revert (if finalized (deals s d) then ''Deal already finalized''
                  else if cancelled (deals s d) then ''Deal has been cancelled''
                  else ''Offer already submitted''))"
  by (simp add: submitOffer_def Let_def)

lemma submitOffer_Inr:
  "submitOffer F s c now d h p ttl descr = Inr s1 \<Longrightarrow>
     party (offers s d c) = 0 \<and> party (offers s1 d c) = c \<and> \<not> revealed (offers s1 d c)"
  by (auto simp: submitOffer_def Let_def split: if_splits option.splits)

lemma apply_tx_offers:
  "offers (apply_tx F s t) d c = offers s d c
   \<or> (isSubmitBy c d t \<and> succeeds (exec F s t) \<and> party (offers s d c) = 0 \<and>
       party (offers (apply_tx F s t) d c) = c)
   \<or> (party (offers s d c) = c \<and>
       offers (apply_tx F s t) d c = (offers s d c)\<lparr>revealed := True\<rparr>)"
proof (cases "call t")
  case (CreateDeal name required)
  then show ?thesis
    by (auto simp: apply_tx_def exec_def createDeal_def Let_def split: if_splits)
next
  case (SubmitOffer d' h p ttl descr)
  then show ?thesis
    by (auto simp: apply_tx_def exec_def submitOffer_def isSubmitBy_def succeeds_def Let_def
        split: if_splits option.splits)
next
  case (RevealOffer d')
  then show ?thesis
    by (auto simp: apply_tx_def exec_def revealOffer_def Let_def split: if_splits)
next
  case (FinalizeDeal d')
  then show ?thesis
    by (auto simp: apply_tx_def exec_def finalizeDeal_def Let_def split: if_splits)
next
  case (CancelDeal d')
  then show ?thesis
    by (auto simp: apply_tx_def exec_def cancelDeal_def Let_def split: if_splits)
qed

lemma apply_tx_offer_kept:
  assumes "party (offers s d c) \<noteq> 0"
  shows "party (offers (apply_tx F s t) d c) = party (offers s d c) \<and>
         (revealed (offers s d c) \<longrightarrow> revealed (offers (apply_tx F s t) d c))"
  using apply_tx_offers [of F s t d c] assms by auto

lemma run_offer_kept:
  "party (offers s d c) \<noteq> 0 \<Longrightarrow>
     party (offers (run F s txs) d c) = party (offers s d c) \<and>
     (revealed (offers s d c) \<longrightarrow> revealed (offers (run F s txs) d c))"
proof (induction txs arbitrary: s)
  case Nil
  show ?case by simp
next
  case (Cons t txs)
  have step: "party (offers (apply_tx F s t) d c) = party (offers s d c)"
    "revealed (offers s d c) \<longrightarrow> revealed (offers (apply_tx F s t) d c)"
    using apply_tx_offer_kept [OF Cons.prems, of F t] by simp_all
  with Cons.prems have "party (offers (apply_tx F s t) d c) \<noteq> 0" by simp
  from Cons.IH [OF this] step show ?case by simp
qed

lemma apply_tx_party_key:
  assumes "party (offers s d a) = 0 \<or> party (offers s d a) = a"
  shows "party (offers (apply_tx F s t) d a) = 0 \<or> party (offers (apply_tx F s t) d a) = a"
  using apply_tx_offers [of F s t d a] assms by auto

lemma run_party_key:
  "party (offers s d a) = 0 \<or> party (offers s d a) = a \<Longrightarrow>
   party (offers (run F s txs) d a) = 0 \<or> party (offers (run F s txs) d a) = a"
proof (induction txs arbitrary: s)
  case Nil
  then show ?case by simp
next
  case (Cons t txs)
  from Cons.IH [OF apply_tx_party_key [OF Cons.prems, of F t]] show ?case by simp
qed

lemma exec_submit_blocked:
  assumes "party (offers s d c) \<noteq> 0" and "isSubmitBy c d t"
  shows "\<not> succeeds (exec F s t)"
proof -
  from assms(2) obtain h p ttl descr where
    t: "msg_sender t = c" "call t = SubmitOffer d h p ttl descr"
    by (auto simp: isSubmitBy_def split: call.splits)
  show ?thesis
    using submitOffer_blocked [OF assms(1), of F "block_timestamp t" h p ttl descr] t
    by (simp add: exec_def succeeds_def)
qed

lemma successes_zero:
  "party (offers s d c) \<noteq> 0 \<Longrightarrow> submitSuccesses F s c d txs = 0"
proof (induction txs arbitrary: s)
  case Nil
  show ?case by simp
next
  case (Cons t txs)
  have "party (offers (apply_tx F s t) d c) \<noteq> 0"
    using apply_tx_offer_kept [OF Cons.prems, of F t] Cons.prems by simp
  from Cons.IH [OF this] exec_submit_blocked [OF Cons.prems, of t F]
  show ?case by auto
qed

lemma successes_le_one:
  assumes "c \<noteq> 0"
  shows "submitSuccesses F s c d txs \<le> 1"
proof (induction txs arbitrary: s)
  case Nil
  show ?case by simp
next
  case (Cons t txs)
  show ?case
  proof (cases "isSubmitBy c d t \<and> succeeds (exec F s t)")
    case False
    then show ?thesis using Cons.IH [of "apply_tx F s t"] by auto
  next
    case True
    have "party (offers (apply_tx F s t) d c) \<noteq> 0"
    proof (cases "party (offers s d c) = 0")
      case False
      with True exec_submit_blocked [of s d c t F] show ?thesis by simp
    next
      case zero: True
      from True obtain h p ttl descr where
        t: "msg_sender t = c" "call t = SubmitOffer d h p ttl descr"
        by (auto simp: isSubmitBy_def split: call.splits)
      from True t obtain s1 where
        s1: "submitOffer F s c (block_timestamp t) d h p ttl descr = Inr s1"
        by (auto simp: exec_def succeeds_def split: sum.splits)
      then have "apply_tx F s t = s1" using t by (simp add: apply_tx_def exec_def)
      with submitOffer_Inr [OF s1] assms show ?thesis by simp
    qed
    then have "submitSuccesses F (apply_tx F s t) c d txs = 0" by (rule successes_zero)
    then show ?thesis by simp
  qed
qed

subsection \<open>Slots of unissued ids, finalized deals, terminal flags\<close>

lemma apply_tx_unissued:
  assumes "dealCounter (apply_tx F s t) \<le> d"
  shows "dealName (deals (apply_tx F s t) d) = dealName (deals s d) \<and>
         requiredParties (deals (apply_tx F s t) d) = requiredParties (deals s d) \<and>
         createdAt (deals (apply_tx F s t) d) = createdAt (deals s d) \<and>
         creator (deals (apply_tx F s t) d) = creator (deals s d)"
proof (cases "call t")
  case (CreateDeal name required)
  show ?thesis
  proof (cases "createDeal s (msg_sender t) (block_timestamp t) name required")
    case (Inl e)
    with CreateDeal show ?thesis by (simp add: apply_tx_def exec_def)
  next
    case (Inr r)
    then have ok: "dealCounter s \<noteq> - 1"
      and r: "apply_tx F s t = fst r" "dealCounter (fst r) = dealCounter s + 1"
      and frame: "\<And>d'. d' \<noteq> dealCounter s \<Longrightarrow> deals (fst r) d' = deals s d'"
      using CreateDeal
      by (auto simp: apply_tx_def exec_def createDeal_def Let_def split: if_splits)
    have "dealCounter s < dealCounter s + 1" using ok by (rule word_lt_succ)
    also have "\<dots> \<le> d" using assms r by simp
    finally have "d \<noteq> dealCounter s" by simp
    with frame r show ?thesis by simp
  qed
next
  case (SubmitOffer d' h p ttl descr)
  then show ?thesis
    by (auto simp: apply_tx_def exec_def submitOffer_def Let_def split: if_splits option.splits)
next
  case (RevealOffer d')
  then show ?thesis
    by (auto simp: apply_tx_def exec_def revealOffer_def Let_def split: if_splits)
next
  case (FinalizeDeal d')
  then show ?thesis
    by (auto simp: apply_tx_def exec_def finalizeDeal_def Let_def split: if_splits)
next
  case (CancelDeal d')
  then show ?thesis
    by (auto simp: apply_tx_def exec_def cancelDeal_def Let_def split: if_splits)
qed

lemma run_unissued:
  "dealCounter (run F s txs) \<le> d \<Longrightarrow>
     dealName (deals (run F s txs) d) = dealName (deals s d) \<and>
     requiredParties (deals (run F s txs) d) = requiredParties (deals s d) \<and>
     createdAt (deals (run F s txs) d) = createdAt (deals s d) \<and>
     creator (deals (run F s txs) d) = creator (deals s d)"
proof (induction txs arbitrary: s)
  case Nil
  show ?case by simp
next
  case (Cons t txs)
  have "dealCounter (apply_tx F s t) \<le> dealCounter (run F (apply_tx F s t) txs)"
    by (rule run_counter_mono)
  also have "\<dots> \<le> d" using Cons.prems by simp
  finally have le: "dealCounter (apply_tx F s t) \<le> d" .
  from Cons.IH [of "apply_tx F s t"] Cons.prems apply_tx_unissued [OF le]
  show ?case by simp
qed

lemma counter_issued:
  "x < dealCounter (run F s txs) \<Longrightarrow> x < dealCounter s \<or> x \<in> set (issued F s txs)"
proof (induction txs arbitrary: s)
  case Nil
  then show ?case by simp
next
  case (Cons t txs)
  from Cons.IH [of "apply_tx F s t"] Cons.prems
  consider (old) "x < dealCounter (apply_tx F s t)" | (new) "x \<in> set (issued F (apply_tx F s t) txs)"
    by auto
  then show ?case
  proof cases
    case new
    then show ?thesis by simp
  next
    case old
    show ?thesis
    proof (cases "dealCounter (apply_tx F s t) = dealCounter s")
      case True
      with old show ?thesis by simp
    next
      case False
      then have step: "dealCounter s \<noteq> - 1" "dealCounter (apply_tx F s t) = dealCounter s + 1"
        using apply_tx_counter [of F s t] by auto
      from old step have "x \<le> dealCounter s" by (simp add: word_lt_succ_iff)
      then have "x < dealCounter s \<or> x = dealCounter s" by auto
      with False show ?thesis by (auto simp: issued_head)
    qed
  qed
qed

lemma apply_tx_offer_listed:
  assumes "party (offers s d a) \<noteq> 0 \<longrightarrow> a \<in> set (parties (deals s d))"
  shows "party (offers (apply_tx F s t) d a) \<noteq> 0 \<longrightarrow> a \<in> set (parties (deals (apply_tx F s t) d))"
proof (cases "call t")
  case (CreateDeal name required)
  with assms show ?thesis
    by (auto simp: apply_tx_def exec_def createDeal_def Let_def split: if_splits)
next
  case (SubmitOffer d' h p ttl descr)
  with assms show ?thesis
    by (auto simp: apply_tx_def exec_def submitOffer_def Let_def split: if_splits option.splits)
next
  case (RevealOffer d')
  with assms show ?thesis
    by (auto simp: apply_tx_def exec_def revealOffer_def Let_def split: if_splits)
next
  case (FinalizeDeal d')
  with assms show ?thesis
    by (auto simp: apply_tx_def exec_def finalizeDeal_def Let_def split: if_splits)
next
  case (CancelDeal d')
  with assms show ?thesis
    by (auto simp: apply_tx_def exec_def cancelDeal_def Let_def split: if_splits)
qed

lemma apply_tx_finalized_revealed:
  assumes "finalized (deals s d) \<longrightarrow> (\<forall>p \<in> set (parties (deals s d)). revealed (offers s d p))"
  shows "finalized (deals (apply_tx F s t) d) \<longrightarrow>
           (\<forall>p \<in> set (parties (deals (apply_tx F s t) d)). revealed (offers (apply_tx F s t) d p))"
proof (cases "call t")
  case (CreateDeal name required)
  with assms show ?thesis
    by (auto simp: apply_tx_def exec_def createDeal_def Let_def split: if_splits)
next
  case (SubmitOffer d' h p ttl descr)
  with assms show ?thesis
    by (auto simp: apply_tx_def exec_def submitOffer_def Let_def split: if_splits option.splits)
next
  case (RevealOffer d')
  with assms show ?thesis
    by (auto simp: apply_tx_def exec_def revealOffer_def Let_def split: if_splits)
next
  case (FinalizeDeal d')
  with assms show ?thesis
    by (auto simp: apply_tx_def exec_def finalizeDeal_def Let_def areAllOffersRevealed_iff
        split: if_splits)
next
  case (CancelDeal d')
  with assms show ?thesis
    by (auto simp: apply_tx_def exec_def cancelDeal_def Let_def split: if_splits)
qed

lemma run_finalized_revealed:
  "(party (offers s d a) \<noteq> 0 \<longrightarrow> a \<in> set (parties (deals s d))) \<Longrightarrow>
   (finalized (deals s d) \<longrightarrow> (\<forall>p \<in> set (parties (deals s d)). revealed (offers s d p))) \<Longrightarrow>
   (party (offers (run F s txs) d a) \<noteq> 0 \<longrightarrow> a \<in> set (parties (deals (run F s txs) d))) \<and>
   (finalized (deals (run F s txs) d) \<longrightarrow>
      (\<forall>p \<in> set (parties (deals (run F s txs) d)). revealed (offers (run F s txs) d p)))"
proof (induction txs arbitrary: s)
  case Nil
  then show ?case by simp
next
  case (Cons t txs)
  from Cons.IH [OF apply_tx_offer_listed [OF Cons.prems(1), of F t]
      apply_tx_finalized_revealed [OF Cons.prems(2), of F t]]
  show ?case by simp
qed

lemma revealOffer_after_finalize:
  assumes "c \<noteq> 0" and "finalized (deals (run F deployed txs) d)"
  shows "\<not> succeeds (revealOffer (run F deployed txs) c now d)"
proof -
  let ?s = "run F deployed txs"
  have inv: "(party (offers ?s d c) \<noteq> 0 \<longrightarrow> c \<in> set (parties (deals ?s d))) \<and>
    (finalized (deals ?s d) \<longrightarrow> (\<forall>p \<in> set (parties (deals ?s d)). revealed (offers ?s d p)))"
    by (rule run_finalized_revealed) (simp_all add: deployed_def zeroDeal_def zeroOffer_def)
  with assms have "party (offers ?s d c) = c \<longrightarrow> revealed (offers ?s d c)" by auto
  then show ?thesis by (auto simp: revealOffer_def succeeds_def Let_def)
qed

lemma apply_tx_terminal:
  assumes "d < dealCounter s" and "finalized (deals s d) \<or> cancelled (deals s d)"
  shows "deals (apply_tx F s t) d = deals s d"
proof (cases "call t")
  case (CreateDeal name required)
  from assms(1) have "d \<noteq> dealCounter s" by auto
  with CreateDeal show ?thesis
    by (auto simp: apply_tx_def exec_def createDeal_def Let_def split: if_splits)
next
  case (SubmitOffer d' h p ttl descr)
  with assms(2) show ?thesis
    by (auto simp: apply_tx_def exec_def submitOffer_def Let_def split: if_splits option.splits)
next
  case (RevealOffer d')
  then show ?thesis
    by (auto simp: apply_tx_def exec_def revealOffer_def Let_def split: if_splits)
next
  case (FinalizeDeal d')
  with assms(2) show ?thesis
    by (auto simp: apply_tx_def exec_def finalizeDeal_def Let_def split: if_splits)
next
  case (CancelDeal d')
  with assms(2) show ?thesis
    by (auto simp: apply_tx_def exec_def cancelDeal_def Let_def split: if_splits)
qed

lemma run_terminal:
  "d < dealCounter s \<Longrightarrow> finalized (deals s d) \<or> cancelled (deals s d) \<Longrightarrow>
     deals (run F s txs) d = deals s d"
proof (induction txs arbitrary: s)
  case Nil
  show ?case by simp
next
  case (Cons t txs)
  have same: "deals (apply_tx F s t) d = deals s d"
    using Cons.prems by (rule apply_tx_terminal)
  have "d < dealCounter (apply_tx F s t)"
    using Cons.prems(1) apply_tx_counter_mono [of s F t] by (rule less_le_trans)
  from Cons.IH [OF this] same Cons.prems(2) show ?case by simp
qed

lemma apply_tx_flags_exclusive:
  assumes "\<not> (finalized (deals s d) \<and> cancelled (deals s d))"
  shows "\<not> (finalized (deals (apply_tx F s t) d) \<and> cancelled (deals (apply_tx F s t) d))"
proof (cases "call t")
  case (CreateDeal name required)
  with assms show ?thesis
    by (auto simp: apply_tx_def exec_def createDeal_def Let_def split: if_splits)
next
  case (SubmitOffer d' h p ttl descr)
  with assms show ?thesis
    by (auto simp: apply_tx_def exec_def submitOffer_def Let_def split: if_splits option.splits)
next
  case (RevealOffer d')
  with assms show ?thesis
    by (auto simp: apply_tx_def exec_def revealOffer_def Let_def split: if_splits)
next
  case (FinalizeDeal d')
  with assms show ?thesis
    by (auto simp: apply_tx_def exec_def finalizeDeal_def Let_def split: if_splits)
next
  case (CancelDeal d')
  with assms show ?thesis
    by (auto simp: apply_tx_def exec_def cancelDeal_def Let_def split: if_splits)
qed

lemma run_flags_exclusive:
  "\<not> (finalized (deals s d) \<and> cancelled (deals s d)) \<Longrightarrow>
   \<not> (finalized (deals (run F s txs) d) \<and> cancelled (deals (run F s txs) d))"
proof (induction txs arbitrary: s)
  case Nil
  then show ?case by simp
next
  case (Cons t txs)
  from Cons.IH [OF apply_tx_flags_exclusive [OF Cons.prems, of F t]] show ?case by simp
qed

lemma reachable_flags_exclusive:
  "\<not> (finalized (deals (run F deployed txs) d) \<and> cancelled (deals (run F deployed txs) d))"
  by (rule run_flags_exclusive) (simp add: deployed_def zeroDeal_def)

subsection \<open>The end-to-end scenario of the specification\<close>

text \<open>
  The model run on the scenario of the specification's section 8: A (10) creates
  ("Pilot Deal", 2) and gets id 0; B (11) and C (12) submit; finalizing before any reveal
  fails; after B's reveal not all offers are revealed, after C's they are; finalizing
  succeeds, and finalizing again fails.
\<close>

lemma pilot_scenario:
  "issued acceptAll deployed [transaction 10 1 (CreateDeal ''Pilot Deal'' 2)] = [0] \<and>
   length (parties (deals s_submitted 0)) = 1 \<and>
   length (parties (deals (run acceptAll s_submitted
     [transaction 12 3 (SubmitOffer 0 700 [] ''Offer C'' ''terms'')]) 0)) = 2 \<and>
   finalizeDeal (run acceptAll s_submitted
     [transaction 12 3 (SubmitOffer 0 700 [] ''Offer C'' ''terms'')]) 10 4 0
     = Inl (Revert ''Not all offers revealed'') \<and>
   \<not> areAllOffersRevealed (run acceptAll s_submitted
     [transaction 12 3 (SubmitOffer 0 700 [] ''Offer C'' ''terms''),
      transaction 11 4 (RevealOffer 0)]) 0 \<and>
   areAllOffersRevealed (run acceptAll s_submitted
     [transaction 12 3 (SubmitOffer 0 700 [] ''Offer C'' ''terms''),
      transaction 11 4 (RevealOffer 0), transaction 12 5 (RevealOffer 0)]) 0 \<and>
   finalized (deals (run acceptAll s_submitted
     [transaction 12 3 (SubmitOffer 0 700 [] ''Offer C'' ''terms''),
      transaction 11 4 (RevealOffer 0), transaction 12 5 (RevealOffer 0),
      transaction 10 6 (FinalizeDeal 0)]) 0) \<and>
   finalizeDeal (run acceptAll s_submitted
     [transaction 12 3 (SubmitOffer 0 700 [] ''Offer C'' ''terms''),
      transaction 11 4 (RevealOffer 0), transaction 12 5 (RevealOffer 0),
      transaction 10 6 (FinalizeDeal 0)]) 10 7 0
     = Inl (Revert ''Deal already finalized'')"
  by (simp add: s_submitted_def eval_defs)

section \<open>The claims\<close>

subsection \<open>C1: the guard of finalizeDeal\<close>

text \<open>
  Claim C1. For every deal id and every caller, \<^verbatim>\<open>finalizeDeal\<close> succeeds if and only if
  the deal is neither finalized nor cancelled, its parties list is not empty and every
  party of the list has revealed its offer. The caller is never consulted (any two callers
  get the same result) and \<open>requiredParties\<close> does not occur in the guard. On success the
  deal is finalized and still not cancelled.
\<close>

theorem finalizeDeal_guard:
  "(succeeds (finalizeDeal s sender now dealId) \<longleftrightarrow>
      \<not> finalized (deals s dealId) \<and> \<not> cancelled (deals s dealId) \<and>
      parties (deals s dealId) \<noteq> [] \<and>
      (\<forall>p \<in> set (parties (deals s dealId)). revealed (offers s dealId p))) \<and>
   finalizeDeal s sender now dealId = finalizeDeal s sender' now dealId \<and>
   (\<forall>s'. finalizeDeal s sender now dealId = Inr s' \<longrightarrow>
      finalized (deals s' dealId) \<and> \<not> cancelled (deals s' dealId))"
  by (auto simp: finalizeDeal_def succeeds_def Let_def areAllOffersRevealed_iff)

text \<open>
  Witness for C1: a deal created by 10 with \<open>requiredParties = 2\<close>, on which only party 11
  submitted and revealed, is finalized by the third party 12; before the reveal the same
  call fails.
\<close>

theorem finalizeDeal_guard_witness:
  "parties (deals s_revealed 0) = [11] \<and> requiredParties (deals s_revealed 0) = 2 \<and>
   creator (deals s_revealed 0) = 10 \<and>
   succeeds (finalizeDeal s_revealed 12 4 0) \<and>
   finalized (deals (run acceptAll s_revealed [transaction 12 4 (FinalizeDeal 0)]) 0) \<and>
   \<not> succeeds (finalizeDeal s_submitted 12 4 0)"
proof -
  note T1 = finalizeDeal_guard [of s_revealed 12 4 0 10]
  note T2 = finalizeDeal_guard [of s_submitted 12 4 0 10]
  have e1: "parties (deals s_revealed 0) = [11]" "requiredParties (deals s_revealed 0) = 2"
    "creator (deals s_revealed 0) = 10" "\<not> finalized (deals s_revealed 0)"
    "\<not> cancelled (deals s_revealed 0)" "revealed (offers s_revealed 0 11)"
    by (simp_all add: s_revealed_def eval_defs)
  have e2: "parties (deals s_submitted 0) = [11]" "\<not> revealed (offers s_submitted 0 11)"
    by (simp_all add: s_submitted_def eval_defs)
  from T1 [THEN conjunct1] e1 have w1: "succeeds (finalizeDeal s_revealed 12 4 0)" by simp
  from T2 [THEN conjunct1] e2 have w2: "\<not> succeeds (finalizeDeal s_submitted 12 4 0)" by simp
  have w3: "finalized (deals (run acceptAll s_revealed [transaction 12 4 (FinalizeDeal 0)]) 0)"
    by (simp add: s_revealed_def eval_defs)
  from e1 w1 w2 w3 show ?thesis by simp
qed

subsection \<open>C2: the guard of revealOffer\<close>

text \<open>
  Claim C2. For every storage state, deal id and caller \<open>c\<close>, \<^verbatim>\<open>revealOffer\<close> succeeds
  if and only if the stored offer of \<open>c\<close> carries \<open>c\<close> as its party, is not revealed, and
  the deal is not cancelled; the \<open>finalized\<close> flag is not part of the guard. On success the
  offer is revealed. For a caller other than the zero address (which no transaction has as
  its sender) and a state reached from deployment, the first condition says that an offer
  exists for \<open>c\<close>; and after a success every later \<^verbatim>\<open>revealOffer\<close> by \<open>c\<close> on that deal,
  after any further transactions, reverts with "Offer already revealed" and changes
  nothing.
\<close>

theorem revealOffer_guard:
  "(succeeds (revealOffer s c now d) \<longleftrightarrow>
      party (offers s d c) = c \<and> \<not> revealed (offers s d c) \<and> \<not> cancelled (deals s d)) \<and>
   (\<forall>s1. revealOffer s c now d = Inr s1 \<longrightarrow> revealed (offers s1 d c)) \<and>
   (c \<noteq> 0 \<longrightarrow>
      (succeeds (revealOffer (run F deployed txs) c now d) \<longleftrightarrow>
         offerExists (run F deployed txs) d c \<and> \<not> revealed (offers (run F deployed txs) d c) \<and>
         \<not> cancelled (deals (run F deployed txs) d)) \<and>
      (\<forall>s1 txs' now'. revealOffer s c now d = Inr s1 \<longrightarrow>
         revealOffer (run F s1 txs') c now' d = Inl (Revert ''Offer already revealed'') \<and>
         apply_tx F (run F s1 txs') (transaction c now' (RevealOffer d)) = run F s1 txs'))"
proof -
  have A: "succeeds (revealOffer s c now d) \<longleftrightarrow>
      party (offers s d c) = c \<and> \<not> revealed (offers s d c) \<and> \<not> cancelled (deals s d)" for s
    by (simp add: revealOffer_def succeeds_def Let_def)
  have B: "\<forall>s1. revealOffer s c now d = Inr s1 \<longrightarrow> revealed (offers s1 d c)"
    by (auto simp: revealOffer_def Let_def split: if_splits)
  have C: "succeeds (revealOffer (run F deployed txs) c now d) \<longleftrightarrow>
         offerExists (run F deployed txs) d c \<and> \<not> revealed (offers (run F deployed txs) d c) \<and>
         \<not> cancelled (deals (run F deployed txs) d)" if c: "c \<noteq> 0"
  proof -
    have "party (offers (run F deployed txs) d c) = 0 \<or> party (offers (run F deployed txs) d c) = c"
      by (rule run_party_key) (simp add: deployed_def zeroOffer_def)
    with c have "party (offers (run F deployed txs) d c) = c \<longleftrightarrow> offerExists (run F deployed txs) d c"
      by (auto simp: offerExists_def)
    with A [of "run F deployed txs"] show ?thesis by simp
  qed
  have D: "revealOffer (run F s1 txs') c now' d = Inl (Revert ''Offer already revealed'') \<and>
         apply_tx F (run F s1 txs') (transaction c now' (RevealOffer d)) = run F s1 txs'"
    if c: "c \<noteq> 0" and ok: "revealOffer s c now d = Inr s1" for s1 txs' now'
  proof -
    from ok have s1: "party (offers s1 d c) = c" "revealed (offers s1 d c)"
      by (auto simp: revealOffer_def Let_def split: if_splits)
    from s1 c have "party (offers s1 d c) \<noteq> 0" by simp
    from run_offer_kept [OF this, of F txs'] s1
    have later: "revealOffer (run F s1 txs') c now' d = Inl (Revert ''Offer already revealed'')"
      by (simp add: revealOffer_def Let_def)
    then have "apply_tx F (run F s1 txs') (transaction c now' (RevealOffer d)) = run F s1 txs'"
      by (simp add: apply_tx_def exec_def transaction_def)
    with later show ?thesis by simp
  qed
  from A [of s] B C D show ?thesis by blast
qed

text \<open>
  Witness for C2: after 10 created deal 0 and 11 submitted, an offer exists for 11 and its
  reveal succeeds, none exists for 12 and its reveal fails, and a second reveal by 11
  reverts with "Offer already revealed". On the hand-written storage in which deal 0 is
  finalized and the offer of 11 unrevealed, the reveal succeeds as well.
\<close>

theorem revealOffer_guard_witness:
  "(11 :: address) \<noteq> 0 \<and>
   offerExists s_submitted 0 11 \<and> succeeds (revealOffer s_submitted 11 3 0) \<and>
   \<not> offerExists s_submitted 0 12 \<and> \<not> succeeds (revealOffer s_submitted 12 3 0) \<and>
   finalized (deals s_finalized_unrevealed 0) \<and> succeeds (revealOffer s_finalized_unrevealed 11 3 0) \<and>
   revealOffer s_revealed 11 4 0 = Inl (Revert ''Offer already revealed'')"
proof -
  have c: "(11 :: address) \<noteq> 0" by simp
  note T = revealOffer_guard [of s_submitted 11 3 0 acceptAll
      "[transaction 10 1 (CreateDeal ''Pilot Deal'' 2),
        transaction 11 2 (SubmitOffer 0 500 [] ''Offer B'' ''terms'')]"]
  note T' = revealOffer_guard [of s_finalized_unrevealed 11 3 0 acceptAll "[]"]
  have w1: "offerExists s_submitted 0 11" "\<not> offerExists s_submitted 0 12"
    "\<not> revealed (offers s_submitted 0 11)" "\<not> cancelled (deals s_submitted 0)"
    by (simp_all add: s_submitted_def offerExists_def eval_defs)
  from T c have "succeeds (revealOffer s_submitted 11 3 0) \<longleftrightarrow>
      offerExists s_submitted 0 11 \<and> \<not> revealed (offers s_submitted 0 11) \<and>
      \<not> cancelled (deals s_submitted 0)"
    unfolding s_submitted_def by blast
  with w1 have w2: "succeeds (revealOffer s_submitted 11 3 0)" by simp
  have s1: "revealOffer s_submitted 11 3 0 = Inr s_revealed"
    by (simp add: s_submitted_def s_revealed_def eval_defs)
  from T c have "\<forall>s1 txs' now'. revealOffer s_submitted 11 3 0 = Inr s1 \<longrightarrow>
      revealOffer (run acceptAll s1 txs') 11 now' 0 = Inl (Revert ''Offer already revealed'')"
    by blast
  with s1 have "revealOffer (run acceptAll s_revealed []) 11 4 0 = Inl (Revert ''Offer already revealed'')"
    by blast
  then have w5: "revealOffer s_revealed 11 4 0 = Inl (Revert ''Offer already revealed'')"
    by simp
  have w3: "\<not> succeeds (revealOffer s_submitted 12 3 0)"
    by (simp add: s_submitted_def eval_defs)
  have e4: "finalized (deals s_finalized_unrevealed 0)"
    "party (offers s_finalized_unrevealed 0 11) = 11"
    "\<not> revealed (offers s_finalized_unrevealed 0 11)"
    "\<not> cancelled (deals s_finalized_unrevealed 0)"
    by (simp_all add: s_finalized_unrevealed_def eval_defs)
  with T' [THEN conjunct1] have w4: "succeeds (revealOffer s_finalized_unrevealed 11 3 0)" by simp
  from c w1 w2 w3 e4 w4 w5 show ?thesis by simp
qed

subsection \<open>C3: submitOffer and deal ids that were never issued\<close>

text \<open>
  Claim C3 says that \<^verbatim>\<open>submitOffer\<close> fails on a deal id that no \<^verbatim>\<open>createDeal\<close> has
  issued. Counterexample: on the freshly deployed contract, where no id has been issued,
  party 11 submits to deal id 0; the call succeeds and writes the offer, the parties
  entry, the offer count and the party's deal index. (The repository's web frontend,
  \<^verbatim>\<open>HowItWorks.tsx\<close>, makes exactly this call: it works on the fixed deal id 0 and never
  calls \<^verbatim>\<open>createDeal\<close>.)
\<close>

theorem submitOffer_unissued_counterexample:
  "issued acceptAll deployed [] = [] \<and> dealCounter deployed = 0 \<and>
   succeeds (submitOffer acceptAll deployed 11 1 0 500 [] ''Offer B'' ''terms'') \<and>
   parties (deals (run acceptAll deployed
     [transaction 11 1 (SubmitOffer 0 500 [] ''Offer B'' ''terms'')]) 0) = [11] \<and>
   party (offers (run acceptAll deployed
     [transaction 11 1 (SubmitOffer 0 500 [] ''Offer B'' ''terms'')]) 0 11) = 11 \<and>
   partyDeals (run acceptAll deployed
     [transaction 11 1 (SubmitOffer 0 500 [] ''Offer B'' ''terms'')]) 11 = [0]"
  by (simp add: eval_defs)

text \<open>
  Claim C3, amended. \<^verbatim>\<open>submitOffer\<close> does not check that the deal id was issued: for
  every storage state and every deal id it succeeds if and only if the deal slot is neither
  finalized nor cancelled, the caller has no offer stored there, the title is not empty,
  fewer than 100 parties are listed, the encrypted input is accepted and the offer count
  does not overflow; the value of the deal counter has no influence. On success it stores
  the unrevealed offer, appends the caller to the parties list, the deal id to the caller's
  index and increments the offer count; when it fails nothing is written.
\<close>

theorem submitOffer_guard:
  "(succeeds (submitOffer F s c now d h p ttl descr) \<longleftrightarrow>
      \<not> finalized (deals s d) \<and> \<not> cancelled (deals s d) \<and> party (offers s d c) = 0 \<and>
      0 < length ttl \<and> length (parties (deals s d)) < 100 \<and>
      F h p c \<noteq> None \<and> offerCount s d \<noteq> - 1) \<and>
   succeeds (submitOffer F (s\<lparr>dealCounter := n\<rparr>) c now d h p ttl descr) =
     succeeds (submitOffer F s c now d h p ttl descr) \<and>
   (\<forall>s'. submitOffer F s c now d h p ttl descr = Inr s' \<longrightarrow>
      parties (deals s' d) = parties (deals s d) @ [c] \<and>
      party (offers s' d c) = c \<and> \<not> revealed (offers s' d c) \<and>
      partyDeals s' c = partyDeals s c @ [d] \<and> offerCount s' d = offerCount s d + 1) \<and>
   (\<not> succeeds (submitOffer F s c now d h p ttl descr) \<longrightarrow>
      apply_tx F s (transaction c now (SubmitOffer d h p ttl descr)) = s)"
proof -
  have A: "succeeds (submitOffer F s c now d h p ttl descr) \<longleftrightarrow>
      \<not> finalized (deals s d) \<and> \<not> cancelled (deals s d) \<and> party (offers s d c) = 0 \<and>
      0 < length ttl \<and> length (parties (deals s d)) < 100 \<and>
      F h p c \<noteq> None \<and> offerCount s d \<noteq> - 1" for s
    by (auto simp: submitOffer_def succeeds_def Let_def MAX_PARTIES_PER_DEAL_def split: option.splits)
  have B: "succeeds (submitOffer F (s\<lparr>dealCounter := n\<rparr>) c now d h p ttl descr) =
     succeeds (submitOffer F s c now d h p ttl descr)"
    by (simp add: A)
  have C: "\<forall>s'. submitOffer F s c now d h p ttl descr = Inr s' \<longrightarrow>
      parties (deals s' d) = parties (deals s d) @ [c] \<and>
      party (offers s' d c) = c \<and> \<not> revealed (offers s' d c) \<and>
      partyDeals s' c = partyDeals s c @ [d] \<and> offerCount s' d = offerCount s d + 1"
    by (auto simp: submitOffer_def Let_def split: if_splits option.splits)
  have D: "\<not> succeeds (submitOffer F s c now d h p ttl descr) \<longrightarrow>
      apply_tx F s (transaction c now (SubmitOffer d h p ttl descr)) = s"
    by (auto simp: apply_tx_def exec_def transaction_def succeeds_def split: sum.splits)
  from A [of s] B C D show ?thesis by blast
qed

text \<open>
  Witness for the amended C3: a submission to the unissued id 7 on the fresh contract and
  one to the issued id 0 both succeed; one with an empty title fails and leaves the storage
  as it was.
\<close>

theorem submitOffer_guard_witness:
  "succeeds (submitOffer acceptAll deployed 11 1 7 500 [] ''Offer B'' ''terms'') \<and>
   succeeds (submitOffer acceptAll s_created 11 2 0 500 [] ''Offer B'' ''terms'') \<and>
   \<not> succeeds (submitOffer acceptAll s_created 11 2 0 500 [] [] ''terms'') \<and>
   apply_tx acceptAll s_created (transaction 11 2 (SubmitOffer 0 500 [] [] ''terms'')) = s_created"
proof -
  note T1 = submitOffer_guard [of acceptAll deployed 11 1 7 500 "[]" "''Offer B''" "''terms''" 0]
  note T2 = submitOffer_guard [of acceptAll s_created 11 2 0 500 "[]" "''Offer B''" "''terms''" 0]
  note T3 = submitOffer_guard [of acceptAll s_created 11 2 0 500 "[]" "[]" "''terms''" 0]
  have w1: "succeeds (submitOffer acceptAll deployed 11 1 7 500 [] ''Offer B'' ''terms'')"
    using T1 by (simp add: deployed_def zeroDeal_def zeroOffer_def acceptAll_def)
  have w2: "succeeds (submitOffer acceptAll s_created 11 2 0 500 [] ''Offer B'' ''terms'')"
    using T2 by (simp add: s_created_def eval_defs)
  have w3: "\<not> succeeds (submitOffer acceptAll s_created 11 2 0 500 [] [] ''terms'')"
    using T3 by simp
  with T3 have w4: "apply_tx acceptAll s_created (transaction 11 2 (SubmitOffer 0 500 [] [] ''terms'')) = s_created"
    by blast
  from w1 w2 w3 w4 show ?thesis by simp
qed

subsection \<open>C4: terminal states\<close>

text \<open>
  Claim C4 says that once a deal's \<open>finalized\<close> or \<open>cancelled\<close> flag is set no later command
  clears it, and that no later command appends to its parties list. The contract breaks
  this for a deal id that was finalized before \<^verbatim>\<open>createDeal\<close> issued it: on a fresh
  contract party 11 submits to id 0 and reveals, 12 finalizes id 0; the next
  \<^verbatim>\<open>createDeal\<close> issues id 0 and writes \<open>finalized = false\<close> into the slot, keeping its
  parties list, after which party 12 submits to the reopened deal. (The lemmas
  \<open>reachable_flags_exclusive\<close> and \<open>run_terminal\<close> show that the flags are never both
  set and that a deal whose id was issued before it became terminal is frozen.)
\<close>

theorem createDeal_reopens_finalized_deal:
  "dealCounter s_phantom = 0 \<and>
   finalized (deals s_phantom 0) \<and> \<not> cancelled (deals s_phantom 0) \<and>
   parties (deals s_phantom 0) = [11] \<and>
   issued acceptAll s_phantom [transaction 10 4 (CreateDeal ''Pilot Deal'' 2)] = [0] \<and>
   \<not> finalized (deals (run acceptAll s_phantom [transaction 10 4 (CreateDeal ''Pilot Deal'' 2)]) 0) \<and>
   parties (deals (run acceptAll s_phantom
      [transaction 10 4 (CreateDeal ''Pilot Deal'' 2),
       transaction 12 5 (SubmitOffer 0 700 [] ''Offer C'' ''terms'')]) 0) = [11, 12]"
  by (simp add: s_phantom_def eval_defs)

subsection \<open>C5: one offer per party and deal\<close>

text \<open>
  Claim C5 says that a second \<^verbatim>\<open>submitOffer\<close> by the same party on the same deal fails
  with DuplicateOffer ("Offer already submitted"). Counterexample: 10 creates deal 0, 11
  submits (the one success counted), 10 cancels; the second submission of 11 then reverts
  with "Deal has been cancelled", because the status guards come before the duplicate
  guard.
\<close>

theorem second_submitOffer_counterexample:
  "submitSuccesses acceptAll deployed 11 0
     [transaction 10 1 (CreateDeal ''Cancel Deal'' 2),
      transaction 11 2 (SubmitOffer 0 500 [] ''Offer B'' ''terms''),
      transaction 10 3 (CancelDeal 0)] = 1 \<and>
   submitOffer acceptAll s_submitted_cancelled 11 4 0 600 [] ''Offer B2'' ''terms'' =
     Inl (Revert ''Deal has been cancelled'') \<and>
   Revert ''Deal has been cancelled'' \<noteq> Revert ''Offer already submitted''"
  by (simp add: s_submitted_cancelled_def isSubmitBy_def eval_defs)

text \<open>
  Claim C5, amended. For every deal id, every party \<open>c\<close> other than the zero address and
  every sequence of transactions from any state, at most one \<^verbatim>\<open>submitOffer\<close> of \<open>c\<close> on
  that deal succeeds. After a successful one, every further attempt of \<open>c\<close> on that deal,
  after any transactions, fails and leaves the storage unchanged: with "Deal already
  finalized" if the deal is finalized by then, with "Deal has been cancelled" if it is
  cancelled, and with "Offer already submitted" otherwise.
\<close>

theorem submitOffer_once:
  "c \<noteq> 0 \<Longrightarrow>
   submitSuccesses F s c d txs \<le> 1 \<and>
   (\<forall>s1. submitOffer F s c now d h p ttl descr = Inr s1 \<longrightarrow>
      submitSuccesses F s1 c d txs = 0 \<and>
      submitOffer F (run F s1 txs) c now' d h' p' ttl' descr' =
        Inl (Revert (if finalized (deals (run F s1 txs) d) then ''Deal already finalized''
                     else if cancelled (deals (run F s1 txs) d) then ''Deal has been cancelled''
                     else ''Offer already submitted'')) \<and>
      apply_tx F (run F s1 txs) (transaction c now' (SubmitOffer d h' p' ttl' descr')) = run F s1 txs)"
proof -
  assume c: "c \<noteq> 0"
  have A: "submitSuccesses F s c d txs \<le> 1" using c by (rule successes_le_one)
  have B: "submitSuccesses F s1 c d txs = 0 \<and>
      submitOffer F (run F s1 txs) c now' d h' p' ttl' descr' =
        Inl (Revert (if finalized (deals (run F s1 txs) d) then ''Deal already finalized''
                     else if cancelled (deals (run F s1 txs) d) then ''Deal has been cancelled''
                     else ''Offer already submitted'')) \<and>
      apply_tx F (run F s1 txs) (transaction c now' (SubmitOffer d h' p' ttl' descr')) = run F s1 txs"
    if ok: "submitOffer F s c now d h p ttl descr = Inr s1" for s1
  proof -
    from submitOffer_Inr [OF ok] c have present: "party (offers s1 d c) \<noteq> 0" by simp
    then have zero: "submitSuccesses F s1 c d txs = 0" by (rule successes_zero)
    from run_offer_kept [OF present, of F txs] present
    have "party (offers (run F s1 txs) d c) \<noteq> 0" by simp
    then have blocked: "submitOffer F (run F s1 txs) c now' d h' p' ttl' descr' =
        Inl (Revert (if finalized (deals (run F s1 txs) d) then ''Deal already finalized''
                     else if cancelled (deals (run F s1 txs) d) then ''Deal has been cancelled''
                     else ''Offer already submitted''))"
      by (rule submitOffer_blocked)
    then have "apply_tx F (run F s1 txs) (transaction c now' (SubmitOffer d h' p' ttl' descr')) = run F s1 txs"
      by (simp add: apply_tx_def exec_def transaction_def)
    with zero blocked show ?thesis by simp
  qed
  from A B show ?thesis by blast
qed

text \<open>
  Witness for the amended C5: of two submissions by 11 on the open deal 0 exactly one
  succeeds, and the second reverts with "Offer already submitted".
\<close>

theorem submitOffer_once_witness:
  "(11 :: address) \<noteq> 0 \<and>
   submitSuccesses acceptAll deployed 11 0
     [transaction 10 1 (CreateDeal ''Pilot Deal'' 2),
      transaction 11 2 (SubmitOffer 0 500 [] ''Offer B'' ''terms''),
      transaction 11 3 (SubmitOffer 0 600 [] ''Offer B2'' ''terms'')] = 1 \<and>
   submitOffer acceptAll s_created 11 2 0 500 [] ''Offer B'' ''terms'' = Inr s_submitted \<and>
   submitOffer acceptAll s_submitted 11 3 0 600 [] ''Offer B2'' ''terms'' =
     Inl (Revert ''Offer already submitted'')"
proof -
  have c: "(11 :: address) \<noteq> 0" by simp
  have s1: "submitOffer acceptAll s_created 11 2 0 500 [] ''Offer B'' ''terms'' = Inr s_submitted"
    by (simp add: s_created_def s_submitted_def eval_defs)
  note T = submitOffer_once [OF c, of acceptAll s_created 0 "[]" 2 500 "[]" "''Offer B''" "''terms''"
      3 600 "[]" "''Offer B2''" "''terms''"]
  from T s1 have "submitOffer acceptAll (run acceptAll s_submitted []) 11 3 0 600 [] ''Offer B2'' ''terms'' =
        Inl (Revert (if finalized (deals (run acceptAll s_submitted []) 0) then ''Deal already finalized''
                     else if cancelled (deals (run acceptAll s_submitted []) 0) then ''Deal has been cancelled''
                     else ''Offer already submitted''))"
    by blast
  moreover have "\<not> finalized (deals s_submitted 0)" "\<not> cancelled (deals s_submitted 0)"
    by (simp_all add: s_submitted_def eval_defs)
  ultimately have w2: "submitOffer acceptAll s_submitted 11 3 0 600 [] ''Offer B2'' ''terms'' =
     Inl (Revert ''Offer already submitted'')"
    by simp
  have w1: "submitSuccesses acceptAll deployed 11 0
     [transaction 10 1 (CreateDeal ''Pilot Deal'' 2),
      transaction 11 2 (SubmitOffer 0 500 [] ''Offer B'' ''terms''),
      transaction 11 3 (SubmitOffer 0 600 [] ''Offer B2'' ''terms'')] = 1"
    by (simp add: isSubmitBy_def eval_defs)
  from c w1 s1 w2 show ?thesis by simp
qed

subsection \<open>C6: only the creator cancels\<close>

text \<open>
  Claim C6. \<^verbatim>\<open>cancelDeal\<close> succeeds if and only if the caller is the deal's creator and
  the deal is neither finalized nor cancelled. Every other caller gets "Only creator can
  cancel deal", whatever the status, and the storage stays as it was. On success the deal
  is cancelled and not finalized.
\<close>

theorem cancelDeal_guard:
  "(succeeds (cancelDeal s c now d) \<longleftrightarrow>
      c = creator (deals s d) \<and> \<not> finalized (deals s d) \<and> \<not> cancelled (deals s d)) \<and>
   (c \<noteq> creator (deals s d) \<longrightarrow>
      cancelDeal s c now d = Inl (Revert ''Only creator can cancel deal'') \<and>
      apply_tx F s (transaction c now (CancelDeal d)) = s) \<and>
   (\<forall>s'. cancelDeal s c now d = Inr s' \<longrightarrow>
      cancelled (deals s' d) \<and> \<not> finalized (deals s' d))"
  by (auto simp: cancelDeal_def succeeds_def Let_def apply_tx_def exec_def transaction_def)

text \<open>
  Witness for C6: on the deal created by 10, the creator's cancellation succeeds and sets
  \<open>cancelled\<close>; party 11 gets "Only creator can cancel deal", also once the deal is
  cancelled.
\<close>

theorem cancelDeal_guard_witness:
  "creator (deals s_created 0) = 10 \<and>
   succeeds (cancelDeal s_created 10 2 0) \<and>
   cancelled (deals (run acceptAll s_created [transaction 10 2 (CancelDeal 0)]) 0) \<and>
   cancelDeal s_created 11 2 0 = Inl (Revert ''Only creator can cancel deal'') \<and>
   apply_tx acceptAll s_created (transaction 11 2 (CancelDeal 0)) = s_created \<and>
   cancelDeal s_cancelled 11 3 0 = Inl (Revert ''Only creator can cancel deal'')"
proof -
  note T1 = cancelDeal_guard [of s_created 10 2 0 acceptAll]
  note T2 = cancelDeal_guard [of s_created 11 2 0 acceptAll]
  note T3 = cancelDeal_guard [of s_cancelled 11 3 0 acceptAll]
  have e1: "creator (deals s_created 0) = 10" "\<not> finalized (deals s_created 0)"
    "\<not> cancelled (deals s_created 0)"
    by (simp_all add: s_created_def eval_defs)
  have e3: "creator (deals s_cancelled 0) = 10"
    by (simp add: s_cancelled_def eval_defs)
  from T1 e1 have w1: "succeeds (cancelDeal s_created 10 2 0)" by simp
  from T2 e1 have w2: "cancelDeal s_created 11 2 0 = Inl (Revert ''Only creator can cancel deal'')"
    "apply_tx acceptAll s_created (transaction 11 2 (CancelDeal 0)) = s_created"
    by simp_all
  from T3 e3 have w3: "cancelDeal s_cancelled 11 3 0 = Inl (Revert ''Only creator can cancel deal'')"
    by simp
  have w4: "cancelled (deals (run acceptAll s_created [transaction 10 2 (CancelDeal 0)]) 0)"
    by (simp add: s_created_def eval_defs)
  from e1 w1 w2 w3 w4 show ?thesis by simp
qed

subsection \<open>C7: validation in createDeal\<close>

text \<open>
  Claim C7. \<^verbatim>\<open>createDeal\<close> succeeds if and only if \<open>1 \<le> requiredParties \<le> 100\<close>
  and the name has between 1 and 256 bytes, as long as the deal counter has not reached
  \<open>2^256 - 1\<close> (where the checked increment panics). In every state a violation is
  rejected with one of the four InvalidInput messages, no deal record is written and the
  counter stays as it was. On success the returned id is the old counter value, the counter
  grows by one and the record holds the name, the required parties, the creator and both
  flags cleared.
\<close>

theorem createDeal_validation:
  "(dealCounter s \<noteq> - 1 \<longrightarrow>
     (succeeds (createDeal s c now name required) \<longleftrightarrow>
        1 \<le> unat required \<and> unat required \<le> 100 \<and> 0 < length name \<and> length name \<le> 256)) \<and>
   (\<not> (1 \<le> unat required \<and> unat required \<le> 100 \<and> 0 < length name \<and> length name \<le> 256) \<longrightarrow>
      (\<exists>e. createDeal s c now name required = Inl e \<and> InvalidInput e) \<and>
      apply_tx F s (transaction c now (CreateDeal name required)) = s) \<and>
   (\<forall>s' i. createDeal s c now name required = Inr (s', i) \<longrightarrow>
      i = dealCounter s \<and> dealCounter s' = dealCounter s + 1 \<and>
      dealName (deals s' i) = name \<and> requiredParties (deals s' i) = required \<and>
      creator (deals s' i) = c \<and> \<not> finalized (deals s' i) \<and> \<not> cancelled (deals s' i))"
proof -
  have pos: "0 < required \<longleftrightarrow> 1 \<le> unat required"
    by (auto simp: word_less_nat_alt)
  have A: "succeeds (createDeal s c now name required) \<longleftrightarrow>
      1 \<le> unat required \<and> unat required \<le> 100 \<and> 0 < length name \<and> length name \<le> 256"
    if "dealCounter s \<noteq> - 1"
    using that pos
    by (simp add: createDeal_def succeeds_def Let_def MAX_DEAL_NAME_LENGTH_def MAX_PARTIES_PER_DEAL_def)
  have B: "\<not> (1 \<le> unat required \<and> unat required \<le> 100 \<and> 0 < length name \<and> length name \<le> 256) \<longrightarrow>
      (\<exists>e. createDeal s c now name required = Inl e \<and> InvalidInput e) \<and>
      apply_tx F s (transaction c now (CreateDeal name required)) = s"
    using pos
    by (auto simp: createDeal_def InvalidInput_def apply_tx_def exec_def transaction_def
         MAX_DEAL_NAME_LENGTH_def MAX_PARTIES_PER_DEAL_def)
  have C: "\<forall>s' i. createDeal s c now name required = Inr (s', i) \<longrightarrow>
      i = dealCounter s \<and> dealCounter s' = dealCounter s + 1 \<and>
      dealName (deals s' i) = name \<and> requiredParties (deals s' i) = required \<and>
      creator (deals s' i) = c \<and> \<not> finalized (deals s' i) \<and> \<not> cancelled (deals s' i)"
    by (auto simp: createDeal_def Let_def split: if_splits)
  from A B C show ?thesis by blast
qed

text \<open>
  Witness for C7, at the boundaries: on the fresh contract a 256-byte name with
  \<open>requiredParties = 100\<close> is accepted; a 257-byte name, \<open>requiredParties = 101\<close>,
  \<open>requiredParties = 0\<close> and the empty name are rejected, and the rejected call leaves the
  storage unchanged.
\<close>

theorem createDeal_validation_witness:
  "dealCounter deployed \<noteq> - 1 \<and>
   succeeds (createDeal deployed 10 1 (replicate 256 CHR ''B'') 100) \<and>
   \<not> succeeds (createDeal deployed 10 1 (replicate 257 CHR ''A'') 2) \<and>
   \<not> succeeds (createDeal deployed 10 1 ''Test Deal'' 101) \<and>
   \<not> succeeds (createDeal deployed 10 1 ''Test'' 0) \<and>
   \<not> succeeds (createDeal deployed 10 1 [] 2) \<and>
   apply_tx acceptAll deployed (transaction 10 1 (CreateDeal ''Test Deal'' 101)) = deployed"
  using createDeal_validation [of deployed 10 1 "replicate 256 CHR ''B''" 100 acceptAll]
    createDeal_validation [of deployed 10 1 "replicate 257 CHR ''A''" 2 acceptAll]
    createDeal_validation [of deployed 10 1 "''Test Deal''" 101 acceptAll]
    createDeal_validation [of deployed 10 1 "''Test''" 0 acceptAll]
    createDeal_validation [of deployed 10 1 "[]" 2 acceptAll]
  by (simp add: deployed_def)

subsection \<open>C8: getDeal on an id that was never issued\<close>

text \<open>
  Claim C8 says that \<^verbatim>\<open>getDeal\<close> fails with NotFound on an id that no \<^verbatim>\<open>createDeal\<close>
  has issued. Counterexample: on the fresh contract \<^verbatim>\<open>getDeal(0)\<close> returns the all-zero
  record.
\<close>

theorem getDeal_unissued_counterexample:
  "issued acceptAll deployed [] = [] \<and>
   getDeal deployed 0 = Inr ([], [], 0, 0, False, False, 0)"
  by (simp add: eval_defs)

text \<open>
  Claim C8, amended. \<^verbatim>\<open>getDeal\<close> never fails. For an id that no \<^verbatim>\<open>createDeal\<close> of the
  trace since deployment has issued it returns the stored slot, whose name is empty and
  whose required parties, creation time and creator are zero.
\<close>

theorem getDeal_never_fails:
  "succeeds (getDeal s d) \<and>
   (d \<notin> set (issued F deployed txs) \<longrightarrow>
      getDeal (run F deployed txs) d =
        Inr ([], parties (deals (run F deployed txs) d), 0, 0,
             finalized (deals (run F deployed txs) d), cancelled (deals (run F deployed txs) d), 0))"
proof -
  have A: "succeeds (getDeal s d)" by (simp add: getDeal_def succeeds_def Let_def)
  have B: "getDeal (run F deployed txs) d =
        Inr ([], parties (deals (run F deployed txs) d), 0, 0,
             finalized (deals (run F deployed txs) d), cancelled (deals (run F deployed txs) d), 0)"
    if fresh: "d \<notin> set (issued F deployed txs)"
  proof -
    have "\<not> d < dealCounter (run F deployed txs)"
    proof
      assume "d < dealCounter (run F deployed txs)"
      from counter_issued [OF this] fresh show False by (simp add: deployed_def)
    qed
    then have "dealCounter (run F deployed txs) \<le> d" by simp
    from run_unissued [OF this] show ?thesis
      by (simp add: getDeal_def Let_def deployed_def zeroDeal_def)
  qed
  from A B show ?thesis by blast
qed

text \<open>
  Witness for the amended C8: after one \<^verbatim>\<open>createDeal\<close>, id 1 is not issued and
  \<^verbatim>\<open>getDeal(1)\<close> returns the all-zero record, while \<^verbatim>\<open>getDeal(0)\<close> returns the deal.
\<close>

theorem getDeal_never_fails_witness:
  "1 \<notin> set (issued acceptAll deployed [transaction 10 1 (CreateDeal ''Pilot Deal'' 2)]) \<and>
   getDeal s_created 1 = Inr ([], [], 0, 0, False, False, 0) \<and>
   getDeal s_created 0 = Inr (''Pilot Deal'', [], 2, 1, False, False, 10)"
proof -
  note T = getDeal_never_fails [of s_created 1 acceptAll "[transaction 10 1 (CreateDeal ''Pilot Deal'' 2)]"]
  have fresh: "1 \<notin> set (issued acceptAll deployed [transaction 10 1 (CreateDeal ''Pilot Deal'' 2)])"
    by (simp add: eval_defs)
  with T have "getDeal s_created 1 = Inr ([], parties (deals s_created 1), 0, 0,
             finalized (deals s_created 1), cancelled (deals s_created 1), 0)"
    by (simp add: s_created_def)
  moreover have "parties (deals s_created 1) = []" "\<not> finalized (deals s_created 1)"
    "\<not> cancelled (deals s_created 1)"
    by (simp_all add: s_created_def eval_defs)
  ultimately have w1: "getDeal s_created 1 = Inr ([], [], 0, 0, False, False, 0)" by simp
  have w2: "getDeal s_created 0 = Inr (''Pilot Deal'', [], 2, 1, False, False, 10)"
    by (simp add: s_created_def eval_defs)
  from fresh w1 w2 show ?thesis by simp
qed

subsection \<open>C9: deal ids\<close>

text \<open>
  Claim C9. From any state and for any sequence of transactions, the ids returned by the
  successful \<^verbatim>\<open>createDeal\<close> calls are strictly increasing in call order, hence pairwise
  distinct, and no id issued in a trace is issued again in any continuation of it.
\<close>

theorem dealIds_strictly_increasing:
  "sorted_wrt (<) (issued F s txs) \<and> distinct (issued F s txs) \<and>
   set (issued F s txs) \<inter> set (issued F (run F s txs) txs') = {}"
proof -
  have inc: "sorted_wrt (<) (issued F s txs)" for s txs
  proof (induction txs arbitrary: s)
    case Nil
    show ?case by simp
  next
    case (Cons t txs)
    show ?case
    proof (cases "dealCounter (apply_tx F s t) = dealCounter s")
      case True
      then show ?thesis using Cons.IH [of "apply_tx F s t"] by (simp add: issued_head)
    next
      case False
      then have step: "dealCounter s \<noteq> - 1" "dealCounter (apply_tx F s t) = dealCounter s + 1"
        using apply_tx_counter [of F s t] by auto
      have "dealCounter s < x" if "x \<in> set (issued F (apply_tx F s t) txs)" for x
      proof -
        have "dealCounter s < dealCounter s + 1" using step(1) by (rule word_lt_succ)
        also have "\<dots> \<le> x" using issued_lower [OF that] step(2) by simp
        finally show ?thesis .
      qed
      then show ?thesis using False Cons.IH [of "apply_tx F s t"] by (simp add: issued_head)
    qed
  qed
  have dist: "distinct (issued F s txs)" for s txs
    using inc [of s txs] by (simp add: strict_sorted_iff)
  have "distinct (issued F s (txs @ txs'))" by (rule dist)
  then have "set (issued F s txs) \<inter> set (issued F (run F s txs) txs') = {}"
    by (simp add: issued_append)
  with inc dist show ?thesis by simp
qed

text \<open>
  Witness for C9: three successful \<^verbatim>\<open>createDeal\<close> calls, interleaved with a submission
  and a rejected \<^verbatim>\<open>createDeal\<close>, return the ids 0, 1 and 2.
\<close>

theorem dealIds_strictly_increasing_witness:
  "issued acceptAll deployed
     [transaction 10 1 (CreateDeal ''Deal 1'' 2),
      transaction 10 2 (CreateDeal ''Deal 2'' 3),
      transaction 11 3 (SubmitOffer 0 500 [] ''Offer B'' ''terms''),
      transaction 12 4 (CreateDeal [] 2),
      transaction 12 5 (CreateDeal ''Deal 3'' 1)] = [0, 1, 2] \<and>
   sorted_wrt (<) [0, 1, 2 :: uint256] \<and> distinct [0, 1, 2 :: uint256]"
proof -
  have e: "issued acceptAll deployed
     [transaction 10 1 (CreateDeal ''Deal 1'' 2),
      transaction 10 2 (CreateDeal ''Deal 2'' 3),
      transaction 11 3 (SubmitOffer 0 500 [] ''Offer B'' ''terms''),
      transaction 12 4 (CreateDeal [] 2),
      transaction 12 5 (CreateDeal ''Deal 3'' 1)] = [0, 1, 2]"
    by (simp add: eval_defs)
  from dealIds_strictly_increasing [of acceptAll deployed
     "[transaction 10 1 (CreateDeal ''Deal 1'' 2),
      transaction 10 2 (CreateDeal ''Deal 2'' 3),
      transaction 11 3 (SubmitOffer 0 500 [] ''Offer B'' ''terms''),
      transaction 12 4 (CreateDeal [] 2),
      transaction 12 5 (CreateDeal ''Deal 3'' 1)]" "[]"] e
  show ?thesis by simp
qed

subsection \<open>C10: finalizeDeal without offers\<close>

text \<open>
  Claim C10 says that \<^verbatim>\<open>finalizeDeal\<close> fails with "Not all offers revealed" on every deal
  whose parties list is empty. Counterexample: 10 creates deal 0 and cancels it; the
  parties list is empty and \<^verbatim>\<open>finalizeDeal\<close> reverts with "Deal has been cancelled",
  because the status guards come first.
\<close>

theorem finalizeDeal_empty_counterexample:
  "parties (deals s_cancelled 0) = [] \<and>
   finalizeDeal s_cancelled 12 3 0 = Inl (Revert ''Deal has been cancelled'') \<and>
   Revert ''Deal has been cancelled'' \<noteq> Revert ''Not all offers revealed''"
  by (simp add: s_cancelled_def eval_defs)

text \<open>
  Claim C10, amended. On an empty parties list \<^verbatim>\<open>areAllOffersRevealed\<close> is false, and
  \<^verbatim>\<open>finalizeDeal\<close> fails with "Not all offers revealed" when the deal is neither finalized
  nor cancelled (as is every id that no command has touched), and with the message of the
  status guard otherwise. In no state does \<^verbatim>\<open>finalizeDeal\<close> fail with "No offers
  submitted": the reveal guard, checked before it, already rejects the empty list.
\<close>

theorem finalizeDeal_no_offers:
  "(parties (deals s d) = [] \<longrightarrow>
      \<not> areAllOffersRevealed s d \<and>
      finalizeDeal s c now d =
        Inl (Revert (if finalized (deals s d) then ''Deal already finalized''
                     else if cancelled (deals s d) then ''Deal has been cancelled''
                     else ''Not all offers revealed''))) \<and>
   finalizeDeal s c now d \<noteq> Inl (Revert ''No offers submitted'')"
  by (auto simp: finalizeDeal_def Let_def areAllOffersRevealed_iff)

text \<open>
  Witness for the amended C10: on the created deal 0 without offers and on the untouched
  id 5 of the fresh contract, \<^verbatim>\<open>finalizeDeal\<close> reverts with "Not all offers revealed".
\<close>

theorem finalizeDeal_no_offers_witness:
  "parties (deals s_created 0) = [] \<and>
   finalizeDeal s_created 12 3 0 = Inl (Revert ''Not all offers revealed'') \<and>
   parties (deals deployed 5) = [] \<and>
   finalizeDeal deployed 12 3 5 = Inl (Revert ''Not all offers revealed'')"
proof -
  note T1 = finalizeDeal_no_offers [of s_created 0 12 3]
  note T2 = finalizeDeal_no_offers [of deployed 5 12 3]
  have e1: "parties (deals s_created 0) = []" "\<not> finalized (deals s_created 0)"
    "\<not> cancelled (deals s_created 0)"
    by (simp_all add: s_created_def eval_defs)
  have e2: "parties (deals deployed 5) = []" "\<not> finalized (deals deployed 5)"
    "\<not> cancelled (deals deployed 5)"
    by (simp_all add: eval_defs)
  from T1 e1 have w1: "finalizeDeal s_created 12 3 0 = Inl (Revert ''Not all offers revealed'')"
    by simp
  from T2 e2 have w2: "finalizeDeal deployed 12 3 5 = Inl (Revert ''Not all offers revealed'')"
    by simp
  from e1 e2 w1 w2 show ?thesis by simp
qed

end
